theory Spec2Isabelle
  imports Complex_Main "HOL-Library.AList" "HOL-Library.Char_ord" "HOL-Library.List_Lexorder"
    "HOL-Library.Multiset"
begin

section \<open>Python values the program handles\<close>

text \<open>
  The program \<^verbatim>\<open>generate_photos.py\<close> reads a JSON configuration, reads the EXIF
  blocks of image files through Pillow, and writes a JSON manifest. A value that comes
  out of \<^verbatim>\<open>json.load\<close> or goes into \<^verbatim>\<open>json.dump\<close> is one of the following; a
  Python \<^verbatim>\<open>dict\<close> keeps its insertion order, so it is an association list. The type
  \<open>'f\<close> stands for Python's \<^verbatim>\<open>float\<close>, whose arithmetic is not interpreted here.
  File names and other strings are \<open>string\<close>; they are compared as Python compares
  \<^verbatim>\<open>str\<close>, character by character.
\<close>

datatype 'f json =
    JNull
  | JBool bool
  | JInt int
  | JFloat 'f
  | JStr string
  | JList "'f json list"
  | JObj "(string \<times> 'f json) list"

type_synonym 'f dict = "(string \<times> 'f json) list"

text \<open>The exceptions that can leave a function of the program, and the two ways a run ends early.\<close>

datatype exn =
    JSONDecodeError
  | TypeError
  | AttributeError
  | ImageError
  | FileNotFoundError

datatype error =
    Exit nat
  | Raised exn

text \<open>\<^verbatim>\<open>d.get(k, default)\<close>: only a dict has the method.\<close>

fun py_get :: "'f json \<Rightarrow> string \<Rightarrow> 'f json \<Rightarrow> exn + 'f json" where
  "py_get (JObj kvs) k dflt = Inr (case map_of kvs k of None \<Rightarrow> dflt | Some v \<Rightarrow> v)"
| "py_get _ k dflt = Inl AttributeError"

text \<open>
  Iterating a value: a list yields its elements, a string its characters (each a string of
  length one), a dict its keys; anything else raises \<^verbatim>\<open>TypeError\<close>.
\<close>

fun py_iter :: "'f json \<Rightarrow> exn + 'f json list" where
  "py_iter (JList xs) = Inr xs"
| "py_iter (JStr s) = Inr (map (\<lambda>c. JStr [c]) s)"
| "py_iter (JObj kvs) = Inr (map (\<lambda>kv. JStr (fst kv)) kvs)"
| "py_iter _ = Inl TypeError"

fun hashable :: "'f json \<Rightarrow> bool" where
  "hashable (JList _) = False"
| "hashable (JObj _) = False"
| "hashable _ = True"

text \<open>
  \<^verbatim>\<open>set(x)\<close>: the elements of \<open>x\<close>, which must all be hashable. The result is kept as
  the list of elements; the program only ever asks whether a string is a member.
\<close>

definition py_set :: "'f json \<Rightarrow> exn + 'f json list" where
  "py_set x =
     (case py_iter x of
        Inl e \<Rightarrow> Inl e
      | Inr xs \<Rightarrow> if list_all hashable xs then Inr xs else Inl TypeError)"

section \<open>The configuration file: \<^verbatim>\<open>load_config\<close>\<close>

text \<open>
  What \<^verbatim>\<open>photos_config.json\<close> holds when the program looks at it: nothing, text that
  \<^verbatim>\<open>json.load\<close> rejects, or the value \<^verbatim>\<open>json.load\<close> returns.
\<close>

datatype 'f config_file =
    Missing
  | Malformed
  | Stored "'f json"

definition default_config :: "string list \<Rightarrow> 'f dict" where
  "default_config all_filenames =
     [(''_instructions'',
         JStr (''Assign photos to categories by adding filenames to each array below. '' @
               ''After editing, run: source .venv/bin/activate && python3 generate_photos.py'')),
      (''favorites'', JList []),
      (''collections'',
         JObj [(''flowers'', JList []), (''food'', JList []), (''friends'', JList [])]),
      (''_all_photos'', JList (map JStr (sort all_filenames)))]"

text \<open>
  \<^verbatim>\<open>new_photos = current - existing\<close> with \<^verbatim>\<open>current = set(all_filenames)\<close>: the
  file names of the scan that are not among the known ones.
\<close>

definition new_photos :: "string list \<Rightarrow> 'f json list \<Rightarrow> string list" where
  "new_photos all_filenames existing =
     filter (\<lambda>f. JStr f \<notin> set existing) (remdups all_filenames)"

text \<open>
  \<^verbatim>\<open>load_config(all_filenames)\<close> returns the configuration it works with and, when it
  wrote \<^verbatim>\<open>photos_config.json\<close>, the value it wrote. \<^verbatim>\<open>sorted(current)\<close> is the
  sorted list of the distinct names of the scan.
\<close>

definition load_config :: "string list \<Rightarrow> 'f config_file \<Rightarrow> exn + ('f json \<times> 'f json option)" where
  "load_config all_filenames cf =
     (case cf of
        Missing \<Rightarrow>
          Inr (JObj (default_config all_filenames), Some (JObj (default_config all_filenames)))
      | Malformed \<Rightarrow> Inl JSONDecodeError
      | Stored config \<Rightarrow>
          (case py_get config ''_all_photos'' (JList []) of
             Inl e \<Rightarrow> Inl e
           | Inr known \<Rightarrow>
               (case py_set known of
                  Inl e \<Rightarrow> Inl e
                | Inr existing \<Rightarrow>
                    if new_photos all_filenames existing \<noteq> [] then
                      (case config of
                         JObj kvs \<Rightarrow>
                           let config' = JObj (AList.update ''_all_photos''
                                 (JList (map JStr (sort (remdups all_filenames)))) kvs)
                           in Inr (config', Some config')
                       | _ \<Rightarrow> Inl TypeError)
                    else Inr (config, None))))"

section \<open>The platform\<close>

text \<open>
  Pillow, \<^verbatim>\<open>datetime\<close> and float arithmetic are not part of the repository. What the
  program uses of them is collected here, and every function below takes it as an
  argument:
  \<^item> \<open>heif_support\<close>: the flag \<^verbatim>\<open>HEIF_SUPPORT\<close>, whether \<^verbatim>\<open>pillow_heif\<close> could be imported;
  \<^item> \<open>TAGS\<close>, \<open>GPSTAGS\<close>: the tables of \<^verbatim>\<open>PIL.ExifTags\<close> from tag numbers to names;
  \<^item> \<open>strptime_iso s\<close>: \<^verbatim>\<open>datetime.strptime(s, '%Y:%m:%d %H:%M:%S').isoformat()\<close>, or
    \<open>None\<close> where \<^verbatim>\<open>strptime\<close> raises;
  \<^item> \<open>float_add\<close>, \<open>float_div\<close>, \<open>float_neg\<close>, \<open>round6\<close>: \<^verbatim>\<open>a + b\<close>, \<^verbatim>\<open>a / n\<close> for an
    integer literal \<open>n\<close>, \<^verbatim>\<open>-a\<close> and \<^verbatim>\<open>round(a, 6)\<close> on floats;
  \<^item> \<open>save_jpeg file\<close>: the file that \<^verbatim>\<open>img.save(new_path, "JPEG", quality=90, ...)\<close>
    leaves at \<open>new_path\<close> for the opened image of \<open>file\<close> (with its EXIF block
    when it has one), or \<open>None\<close> where \<^verbatim>\<open>img.save\<close> raises (an image mode that JPEG
    cannot hold, for one);
  \<^item> \<open>data_file\<close>: what a scan of the directory finds at \<^verbatim>\<open>photos_data.json\<close> once the
    program has written it.
\<close>

text \<open>
  A value of the GPS block as the code observes it. \<open>unpack\<close> is what iterating the
  value yields, each element already passed through \<^verbatim>\<open>float()\<close> (\<open>None\<close> where
  \<^verbatim>\<open>float()\<close> raises), or \<open>None\<close> when the value cannot be iterated; \<open>as_str\<close> is
  \<open>Some s\<close> exactly when the value is the \<^verbatim>\<open>str\<close> \<open>s\<close>.
\<close>

datatype 'f gps_value = GpsValue (unpack: "'f option list option") (as_str: "string option")

text \<open>
  A value of the EXIF block as the code observes it: \<open>py_str\<close> is \<^verbatim>\<open>str(value)\<close> and
  \<open>py_items\<close> is \<^verbatim>\<open>value.items()\<close>, or \<open>None\<close> when the value has no such method.
\<close>

datatype 'f exif_value =
  ExifValue (py_str: string) (py_items: "(nat \<times> 'f gps_value) list option")

text \<open>
  What Pillow makes of a file: \<^verbatim>\<open>Image.open\<close> raises (the file is corrupt or no
  image at all); it opens but \<^verbatim>\<open>_getexif\<close> raises (the format has no such method);
  \<^verbatim>\<open>_getexif()\<close> returns \<^verbatim>\<open>None\<close>; or it returns a dict from tag numbers to values,
  here in iteration order. A directory entry carries this and \<open>mtime_iso\<close>, which is
  \<^verbatim>\<open>datetime.fromtimestamp(os.path.getmtime(filepath)).isoformat()\<close>.
\<close>

datatype 'f image =
    Unreadable
  | NoGetexif
  | NoExif
  | Exif "(nat \<times> 'f exif_value) list"

record 'f file_entry =
  image :: "'f image"
  mtime_iso :: string

type_synonym 'f dir = "(string \<times> 'f file_entry) list"

record 'f env =
  heif_support :: bool
  TAGS :: "nat \<Rightarrow> string option"
  GPSTAGS :: "nat \<Rightarrow> string option"
  strptime_iso :: "string \<Rightarrow> string option"
  float_add :: "'f \<Rightarrow> 'f \<Rightarrow> 'f"
  float_div :: "'f \<Rightarrow> int \<Rightarrow> 'f"
  float_neg :: "'f \<Rightarrow> 'f"
  round6 :: "'f \<Rightarrow> 'f"
  save_jpeg :: "'f file_entry \<Rightarrow> 'f file_entry option"
  data_file :: "'f file_entry"

section \<open>File names\<close>

definition SUPPORTED_EXTENSIONS :: "string set" where
  "SUPPORTED_EXTENSIONS = {''.jpeg'', ''.jpg'', ''.png'', ''.gif'', ''.webp''}"

definition HEIC_EXTENSIONS :: "string set" where
  "HEIC_EXTENSIONS = {''.heic'', ''.heif''}"

text \<open>\<^verbatim>\<open>str.lower()\<close> on the letters that can make up one of the extensions above.\<close>

definition lower_char :: "char \<Rightarrow> char" where
  "lower_char c =
     (case map_of (zip ''ABCDEFGHIJKLMNOPQRSTUVWXYZ'' ''abcdefghijklmnopqrstuvwxyz'') c of
        None \<Rightarrow> c
      | Some l \<Rightarrow> l)"

definition lower :: "string \<Rightarrow> string" where
  "lower s = map lower_char s"

text \<open>
  \<^verbatim>\<open>os.path.splitext\<close> on a name without directory separators: the extension starts at
  the last dot, unless only dots come before it.
\<close>

definition splitext :: "string \<Rightarrow> string \<times> string" where
  "splitext p =
     (if CHR ''.'' \<notin> set p then (p, [])
      else
        let dotIndex = length p - length (takeWhile (\<lambda>c. c \<noteq> CHR ''.'') (rev p)) - 1
        in if list_all (\<lambda>c. c = CHR ''.'') (take dotIndex p) then (p, [])
           else (take dotIndex p, drop dotIndex p))"

definition ext_of :: "string \<Rightarrow> string" where
  "ext_of f = lower (snd (splitext f))"

section \<open>Format conversion: \<^verbatim>\<open>convert_heic_to_jpeg\<close>\<close>

text \<open>
  The directory \<^verbatim>\<open>public/background/photos\<close> is the list of its entries, in the order
  \<^verbatim>\<open>os.listdir\<close> reports them. \<^verbatim>\<open>convert_heic_to_jpeg\<close> has no handler around
  \<^verbatim>\<open>Image.open\<close> or \<^verbatim>\<open>img.save\<close>: when the file cannot be opened, or the opened
  image cannot be saved, the exception leaves the function. Otherwise the JPEG is saved
  under the name with the extension replaced and the source is removed.
\<close>

definition convert_heic_to_jpeg :: "'f env \<Rightarrow> string \<Rightarrow> 'f dir \<Rightarrow> exn + 'f dir" where
  "convert_heic_to_jpeg E f d =
     (if \<not> heif_support E then Inr d
      else
        let new_path = fst (splitext f) @ ''.jpeg'' in
        (case map_of d f of
           None \<Rightarrow> Inl FileNotFoundError
         | Some src \<Rightarrow>
             if image src = Unreadable then Inl ImageError
             else
               (case save_jpeg E src of
                  None \<Rightarrow> Inl ImageError
                | Some jpeg \<Rightarrow> Inr (AList.delete f (AList.update new_path jpeg d)))))"

text \<open>Step 1 of \<^verbatim>\<open>main\<close>: the loop over the listing taken before any conversion.\<close>

fun convert_all :: "'f env \<Rightarrow> string list \<Rightarrow> 'f dir \<Rightarrow> exn + 'f dir" where
  "convert_all E [] d = Inr d"
| "convert_all E (f # fs) d =
     (if ext_of f \<in> HEIC_EXTENSIONS then
        (case convert_heic_to_jpeg E f d of
           Inl e \<Rightarrow> Inl e
         | Inr d' \<Rightarrow> convert_all E fs d')
      else convert_all E fs d)"

section \<open>Metadata: \<^verbatim>\<open>extract_exif\<close>\<close>

text \<open>A key of the dict \<^verbatim>\<open>exif\<close>: \<^verbatim>\<open>TAGS.get(tag_id, tag_id)\<close> is a name or the number itself.\<close>

datatype tag = Name string | Id nat

definition tag_of :: "(nat \<Rightarrow> string option) \<Rightarrow> nat \<Rightarrow> tag" where
  "tag_of table tag_id = (case table tag_id of None \<Rightarrow> Id tag_id | Some n \<Rightarrow> Name n)"

text \<open>The two for statements that fill \<^verbatim>\<open>exif\<close> and \<^verbatim>\<open>gps_info\<close>: a later entry replaces an earlier one.\<close>

definition named :: "(nat \<Rightarrow> string option) \<Rightarrow> (nat \<times> 'v) list \<Rightarrow> (tag \<rightharpoonup> 'v)" where
  "named table raw = fold (\<lambda>kv m. m(tag_of table (fst kv) \<mapsto> snd kv)) raw Map.empty"

text \<open>
  The loop over the date tags. The \<^verbatim>\<open>break\<close> stands after the \<^verbatim>\<open>try\<close> statement, so
  the loop ends at the first tag that is present, whether or not its value parsed.
\<close>

fun find_date :: "'f env \<Rightarrow> (tag \<rightharpoonup> 'f exif_value) \<Rightarrow> string list \<Rightarrow> string option" where
  "find_date E exif [] = None"
| "find_date E exif (date_tag # rest) =
     (case exif (Name date_tag) of
        Some v \<Rightarrow> strptime_iso E (py_str v)
      | None \<Rightarrow> find_date E exif rest)"

text \<open>\<^verbatim>\<open>to_degrees\<close>: \<open>None\<close> when the unpacking \<^verbatim>\<open>d, m, s = value\<close> or a \<^verbatim>\<open>float()\<close> raises.\<close>

definition to_degrees :: "'f env \<Rightarrow> 'f gps_value \<Rightarrow> 'f option" where
  "to_degrees E v =
     (case unpack v of
        Some [Some d, Some m, Some s] \<Rightarrow>
          Some (float_add E (float_add E d (float_div E m 60)) (float_div E s 3600))
      | _ \<Rightarrow> None)"

text \<open>\<^verbatim>\<open>gps_info.get(key, default) == code\<close>, for a default different from the code.\<close>

definition ref_is :: "(tag \<rightharpoonup> 'f gps_value) \<Rightarrow> string \<Rightarrow> string \<Rightarrow> bool" where
  "ref_is gps_info key code =
     (case gps_info (Name key) of None \<Rightarrow> False | Some r \<Rightarrow> as_str r = Some code)"

text \<open>The GPS part of \<^verbatim>\<open>extract_exif\<close>: the value for \<^verbatim>\<open>result["geo"]\<close>, or the exception.\<close>

definition decode_gps :: "'f env \<Rightarrow> (tag \<rightharpoonup> 'f exif_value) \<Rightarrow> exn + ('f \<times> 'f) option" where
  "decode_gps E exif =
     (case exif (Name ''GPSInfo'') of
        None \<Rightarrow> Inr None
      | Some info \<Rightarrow>
          (case py_items info of
             None \<Rightarrow> Inl AttributeError
           | Some items \<Rightarrow>
               let gps_info = named (GPSTAGS E) items in
               (case (gps_info (Name ''GPSLatitude''), gps_info (Name ''GPSLongitude'')) of
                  (Some la, Some lo) \<Rightarrow>
                    (case to_degrees E la of
                       None \<Rightarrow> Inl TypeError
                     | Some lat \<Rightarrow>
                         (case to_degrees E lo of
                            None \<Rightarrow> Inl TypeError
                          | Some lon \<Rightarrow>
                              let lat' = (if ref_is gps_info ''GPSLatitudeRef'' ''S''
                                          then float_neg E lat else lat);
                                  lon' = (if ref_is gps_info ''GPSLongitudeRef'' ''W''
                                          then float_neg E lon else lon)
                              in Inr (Some (round6 E lat', round6 E lon'))))
                | _ \<Rightarrow> Inr None)))"

record 'f exif_result =
  date :: "string option"
  geo :: "('f \<times> 'f) option"

text \<open>
  \<^verbatim>\<open>extract_exif\<close>: every exception is caught by the one handler around the body, which
  returns \<^verbatim>\<open>result\<close> as far as it had been filled. The date is stored before the GPS
  block is looked at, \<^verbatim>\<open>result["geo"]\<close> is stored last.
\<close>

definition extract_exif :: "'f env \<Rightarrow> 'f image \<Rightarrow> 'f exif_result" where
  "extract_exif E img =
     (case img of
        Unreadable \<Rightarrow> \<lparr>date = None, geo = None\<rparr>
      | NoGetexif \<Rightarrow> \<lparr>date = None, geo = None\<rparr>
      | NoExif \<Rightarrow> \<lparr>date = None, geo = None\<rparr>
      | Exif exif_raw \<Rightarrow>
          if exif_raw = [] then \<lparr>date = None, geo = None\<rparr>
          else
            let exif = named (TAGS E) exif_raw;
                d = find_date E exif [''DateTimeOriginal'', ''DateTimeDigitized'', ''DateTime'']
            in (case decode_gps E exif of
                  Inl e \<Rightarrow> \<lparr>date = d, geo = None\<rparr>
                | Inr g \<Rightarrow> \<lparr>date = d, geo = g\<rparr>))"

section \<open>Categories and photo records\<close>

text \<open>
  \<^verbatim>\<open>f in col_files\<close> for a file name \<open>f\<close>: membership in a list, among the keys of a
  dict, as a substring of a string; any other value raises \<^verbatim>\<open>TypeError\<close>.
\<close>

fun is_substring :: "string \<Rightarrow> string \<Rightarrow> bool" where
  "is_substring f [] = (f = [])"
| "is_substring f (c # s) = (take (length f) (c # s) = f \<or> is_substring f s)"

fun py_contains :: "string \<Rightarrow> 'f json \<Rightarrow> exn + bool" where
  "py_contains f (JList xs) = Inr (JStr f \<in> set xs)"
| "py_contains f (JObj kvs) = Inr (f \<in> fst ` set kvs)"
| "py_contains f (JStr s) = Inr (is_substring f s)"
| "py_contains f _ = Inl TypeError"

text \<open>\<^verbatim>\<open>collections_config.items()\<close>: only a dict has the method.\<close>

fun dict_items :: "'f json \<Rightarrow> exn + (string \<times> 'f json) list" where
  "dict_items (JObj kvs) = Inr kvs"
| "dict_items _ = Inl AttributeError"

text \<open>The loop over the collections, appending to \<^verbatim>\<open>cats\<close>.\<close>

fun collect_categories :: "string \<Rightarrow> (string \<times> 'f json) list \<Rightarrow> string list \<Rightarrow> exn + string list" where
  "collect_categories f [] cats = Inr cats"
| "collect_categories f (col # rest) cats =
     (case py_contains f (snd col) of
        Inl e \<Rightarrow> Inl e
      | Inr b \<Rightarrow> collect_categories f rest (if b then cats @ [fst col] else cats))"

definition categories :: "'f json list \<Rightarrow> 'f json \<Rightarrow> string \<Rightarrow> exn + string list" where
  "categories favorites_set collections_config f =
     (case dict_items collections_config of
        Inl e \<Rightarrow> Inl e
      | Inr items \<Rightarrow>
          collect_categories f items (if JStr f \<in> set favorites_set then [''favorites''] else []))"

text \<open>
  The body of the loop of step 4 for the file name \<open>f\<close> with directory entry \<open>fe\<close>:
  the dict \<^verbatim>\<open>photo\<close>. \<^verbatim>\<open>not exif["date"]\<close> holds for \<^verbatim>\<open>None\<close> and for the empty string.
\<close>

definition make_photo :: "'f env \<Rightarrow> 'f json list \<Rightarrow> 'f json \<Rightarrow> string \<Rightarrow> 'f file_entry \<Rightarrow> exn + 'f json" where
  "make_photo E favorites_set collections_config f fe =
     (let exif = extract_exif E (image fe);
          d = (case date exif of
                 None \<Rightarrow> mtime_iso fe
               | Some s \<Rightarrow> if s = [] then mtime_iso fe else s)
      in case categories favorites_set collections_config f of
           Inl e \<Rightarrow> Inl e
         | Inr cats \<Rightarrow>
             Inr (JObj ([(''file'', JStr f), (''date'', JStr d)] @
                        (case geo exif of
                           None \<Rightarrow> []
                         | Some g \<Rightarrow>
                             [(''geo'', JObj [(''lat'', JFloat (fst g)), (''lon'', JFloat (snd g))])]) @
                        (if cats = [] then [] else [(''categories'', JList (map JStr cats))]))))"

fun make_photos :: "'f env \<Rightarrow> 'f json list \<Rightarrow> 'f json \<Rightarrow> 'f dir \<Rightarrow> string list \<Rightarrow> exn + 'f json list" where
  "make_photos E favorites_set collections_config d [] = Inr []"
| "make_photos E favorites_set collections_config d (f # fs) =
     (case map_of d f of
        None \<Rightarrow> Inl FileNotFoundError
      | Some fe \<Rightarrow>
          (case make_photo E favorites_set collections_config f fe of
             Inl e \<Rightarrow> Inl e
           | Inr photo \<Rightarrow>
               (case make_photos E favorites_set collections_config d fs of
                  Inl e \<Rightarrow> Inl e
                | Inr photos \<Rightarrow> Inr (photo # photos))))"

section \<open>The run: \<^verbatim>\<open>main\<close>\<close>

text \<open>
  The sort key \<^verbatim>\<open>p["date"]\<close>. Every dict that \<open>make_photo\<close> builds has the key with a
  string value; the other cases do not arise.
\<close>

definition date_of :: "'f json \<Rightarrow> string" where
  "date_of p = (case py_get p ''date'' JNull of Inr (JStr s) \<Rightarrow> s | _ \<Rightarrow> [])"

text \<open>
  What a run reads and writes. \<open>photos_dir\<close> is \<open>None\<close> when the directory does not
  exist. \<open>output_json\<close> and \<open>output_js\<close> are the values last serialised into
  \<^verbatim>\<open>photos_data.json\<close> and \<^verbatim>\<open>photos_data.js\<close>, \<open>None\<close> before the program has written
  them; the texts of the two files are \<open>json_text\<close> and \<open>js_text\<close> of these values.
\<close>

record 'f world =
  photos_dir :: "'f dir option"
  config_file :: "'f config_file"
  output_json :: "'f json option"
  output_js :: "'f json option"

definition scan :: "'f dir \<Rightarrow> string list" where
  "scan d = sort (filter (\<lambda>f. ext_of f \<in> SUPPORTED_EXTENSIONS) (map fst d))"

text \<open>
  \<^verbatim>\<open>main\<close>. A run that ends in \<^verbatim>\<open>sys.exit(1)\<close> or in an exception no handler catches
  is \<open>Inl\<close>; the state such a run leaves behind is not followed further.
\<close>

definition main :: "'f env \<Rightarrow> 'f world \<Rightarrow> error + 'f world" where
  "main E W =
     (case photos_dir W of
        None \<Rightarrow> Inl (Exit 1)
      | Some d0 \<Rightarrow>
     (case convert_all E (map fst d0) d0 of
        Inl e \<Rightarrow> Inl (Raised e)
      | Inr d \<Rightarrow>
     (case load_config (scan d) (config_file W) of
        Inl e \<Rightarrow> Inl (Raised e)
      | Inr (config, written) \<Rightarrow>
     (case py_get config ''favorites'' (JList []) of
        Inl e \<Rightarrow> Inl (Raised e)
      | Inr favorites \<Rightarrow>
     (case py_set favorites of
        Inl e \<Rightarrow> Inl (Raised e)
      | Inr favorites_set \<Rightarrow>
     (case py_get config ''collections'' (JObj []) of
        Inl e \<Rightarrow> Inl (Raised e)
      | Inr collections_config \<Rightarrow>
     (case make_photos E favorites_set collections_config d (scan d) of
        Inl e \<Rightarrow> Inl (Raised e)
      | Inr photos \<Rightarrow>
          Inr \<lparr>photos_dir = Some (AList.update ''photos_data.json'' (data_file E) d),
               config_file = (case written of None \<Rightarrow> config_file W | Some c \<Rightarrow> Stored c),
               output_json = Some (JList (sort_key date_of photos)),
               output_js = Some (JList (sort_key date_of photos))\<rparr>)))))))"

text \<open>
  The texts of the two output files for a serialiser \<open>dumps\<close> (\<^verbatim>\<open>json.dumps\<close> with
  \<^verbatim>\<open>indent=2\<close>); the dash of the header line is given by its three bytes in UTF-8.
\<close>

definition json_text :: "('f json \<Rightarrow> string) \<Rightarrow> 'f json \<Rightarrow> string" where
  "json_text dumps photos = dumps photos"

definition js_text :: "('f json \<Rightarrow> string) \<Rightarrow> 'f json \<Rightarrow> string" where
  "js_text dumps photos =
     ''// Auto-generated by generate_photos.py '' @ [CHR 0xE2, CHR 0x80, CHR 0x94] @
     '' do not edit manually'' @ [CHR 0x0A] @
     ''const PHOTOS_RAW_DATA = '' @ dumps photos @ '';'' @ [CHR 0x0A]"

section \<open>A platform for worked examples\<close>

text \<open>
  The theorems below hold for every platform \<open>E\<close>. Worked examples need one to compute
  with. Its tables are the entries of \<^verbatim>\<open>PIL.ExifTags\<close> the program asks for. Its floats
  are the expressions the program builds, left unevaluated. Its timestamp parser accepts
  the zero-padded form \<^verbatim>\<open>YYYY:MM:DD HH:MM:SS\<close> of a valid date and rejects everything
  else (Python's \<^verbatim>\<open>strptime\<close> also accepts fields without the leading zero, which no
  example uses).
\<close>

datatype fexpr =
    FloatOf int
  | FAdd fexpr fexpr
  | FDiv fexpr int
  | FNeg fexpr
  | FRound6 fexpr

definition pil_TAGS :: "nat \<Rightarrow> string option" where
  "pil_TAGS = map_of [(306, ''DateTime''), (34853, ''GPSInfo''),
                      (36867, ''DateTimeOriginal''), (36868, ''DateTimeDigitized'')]"

definition pil_GPSTAGS :: "nat \<Rightarrow> string option" where
  "pil_GPSTAGS = map_of [(1, ''GPSLatitudeRef''), (2, ''GPSLatitude''),
                         (3, ''GPSLongitudeRef''), (4, ''GPSLongitude'')]"

definition number :: "string \<Rightarrow> nat option" where
  "number s =
     (if s \<noteq> [] \<and> list_all (\<lambda>c. c \<in> set ''0123456789'') s
      then Some (foldl (\<lambda>n c. 10 * n + length (takeWhile (\<lambda>x. x \<noteq> c) ''0123456789'')) 0 s)
      else None)"

definition days_in_month :: "nat \<Rightarrow> nat \<Rightarrow> nat" where
  "days_in_month y m =
     (if m = 2 then (if y mod 4 = 0 \<and> (y mod 100 \<noteq> 0 \<or> y mod 400 = 0) then 29 else 28)
      else if m \<in> {4, 6, 9, 11} then 30 else 31)"

definition strptime_padded :: "string \<Rightarrow> string option" where
  "strptime_padded s =
     (if length s = 19 \<and> map (\<lambda>i. s ! i) [4, 7, 10, 13, 16] = '':: ::'' then
        (case (number (take 4 s), number (take 2 (drop 5 s)), number (take 2 (drop 8 s)),
               number (take 2 (drop 11 s)), number (take 2 (drop 14 s)),
               number (take 2 (drop 17 s))) of
           (Some y, Some mo, Some dd, Some h, Some mi, Some se) \<Rightarrow>
             if 1 \<le> y \<and> 1 \<le> mo \<and> mo \<le> 12 \<and> 1 \<le> dd \<and> dd \<le> days_in_month y mo \<and>
                h \<le> 23 \<and> mi \<le> 59 \<and> se \<le> 59
             then Some (take 4 s @ ''-'' @ take 2 (drop 5 s) @ ''-'' @ take 2 (drop 8 s) @
                        ''T'' @ drop 11 s)
             else None
         | _ \<Rightarrow> None)
      else None)"

definition example_env :: "fexpr env" where
  "example_env =
     \<lparr>heif_support = True,
      TAGS = pil_TAGS,
      GPSTAGS = pil_GPSTAGS,
      strptime_iso = strptime_padded,
      float_add = FAdd,
      float_div = FDiv,
      float_neg = FNeg,
      round6 = FRound6,
      save_jpeg = Some,
      data_file = \<lparr>image = Unreadable, mtime_iso = ''2024-01-01T00:00:00''\<rparr>\<rparr>"

text \<open>
  A second platform computes with exact rational numbers in place of floats: sums,
  quotients and negation are exact, and \<open>round6\<close> is the nearest multiple of one
  millionth, a tie going to the even one as Python's \<^verbatim>\<open>round\<close> does. Python's floats
  differ from it by their rounding errors only.
\<close>

definition round_half_even :: "rat \<Rightarrow> int" where
  "round_half_even x =
     (let f = \<lfloor>x\<rfloor>; r = x - of_int f
      in if r < 1 / 2 then f
         else if 1 / 2 < r then f + 1
         else if even f then f else f + 1)"

definition exact_round6 :: "rat \<Rightarrow> rat" where
  "exact_round6 x = of_int (round_half_even (x * 1000000)) / 1000000"

definition exact_env :: "rat env" where
  "exact_env =
     \<lparr>heif_support = True,
      TAGS = pil_TAGS,
      GPSTAGS = pil_GPSTAGS,
      strptime_iso = strptime_padded,
      float_add = (+),
      float_div = (\<lambda>a n. a / of_int n),
      float_neg = uminus,
      round6 = exact_round6,
      save_jpeg = Some,
      data_file = \<lparr>image = Unreadable, mtime_iso = ''2024-01-01T00:00:00''\<rparr>\<rparr>"

section \<open>Evaluating the example platforms\<close>

lemma strptime_padded_valid:
  "strptime_padded ''2020:01:02 03:04:05'' = Some ''2020-01-02T03:04:05''"
  by (simp add: strptime_padded_def number_def days_in_month_def)

lemma strptime_padded_garbage: "strptime_padded ''garbage'' = None"
  by (simp add: strptime_padded_def)

lemma ext_of_examples:
  "ext_of ''a.jpg'' = ''.jpg''" "ext_of ''b.jpg'' = ''.jpg''" "ext_of ''c.jpg'' = ''.jpg''"
  "ext_of ''bad.heic'' = ''.heic''" "ext_of ''d.HEIC'' = ''.heic''" "ext_of ''d.jpeg'' = ''.jpeg''"
  "ext_of ''photos_data.json'' = ''.json''"
  by (simp_all add: ext_of_def splitext_def lower_def lower_char_def)

lemma example_env_fields:
  "heif_support example_env" "save_jpeg example_env src = Some src"
  "data_file example_env = \<lparr>image = Unreadable, mtime_iso = ''2024-01-01T00:00:00''\<rparr>"
  by (simp_all add: example_env_def)

lemma exact_env_fields:
  "TAGS exact_env = pil_TAGS" "GPSTAGS exact_env = pil_GPSTAGS"
  "float_add exact_env a b = a + b" "float_div exact_env a n = a / of_int n"
  "float_neg exact_env a = - a" "round6 exact_env a = exact_round6 a"
  by (simp_all add: exact_env_def)

section \<open>The configuration file\<close>

text \<open>
  Claim C2, as amended. The claim says that \<^verbatim>\<open>load_config\<close> stores the sorted union of the
  known and the discovered file names, so that \<^verbatim>\<open>_all_photos\<close> never loses a name. The
  code stores \<^verbatim>\<open>sorted(current)\<close>: for a stored configuration that \<^verbatim>\<open>load_config\<close>
  accepts, whenever the scan holds a name that is not among the known ones,
  \<^verbatim>\<open>_all_photos\<close> becomes the sorted list of the distinct names of the scan alone and the
  configuration is written; otherwise the configuration is returned as read and nothing
  is written.
\<close>

theorem load_config_replaces_all_photos:
  assumes "load_config all_filenames (Stored cfg) = Inr (config, written)"
  shows "\<exists>kvs existing.
           cfg = JObj kvs \<and>
           py_set (case map_of kvs ''_all_photos'' of None \<Rightarrow> JList [] | Some v \<Rightarrow> v)
             = Inr existing \<and>
           (if \<exists>f \<in> set all_filenames. JStr f \<notin> set existing
            then py_get config ''_all_photos'' JNull
                   = Inr (JList (map JStr (sort (remdups all_filenames)))) \<and>
                 written = Some config
            else config = cfg \<and> written = None)"
  using assms
  by (cases cfg)
     (auto simp: load_config_def new_photos_def filter_empty_conv AList.update_conv' Let_def
           split: sum.splits if_splits)

theorem load_config_replaces_all_photos_witness:
  "load_config [''b.jpg'', ''a.jpg'']
     (Stored (JObj [(''favorites'', JList [JStr ''a.jpg'']),
                    (''_all_photos'', JList [JStr ''a.jpg''])] :: fexpr json))
   = Inr (JObj [(''favorites'', JList [JStr ''a.jpg'']),
                (''_all_photos'', JList [JStr ''a.jpg'', JStr ''b.jpg''])],
          Some (JObj [(''favorites'', JList [JStr ''a.jpg'']),
                      (''_all_photos'', JList [JStr ''a.jpg'', JStr ''b.jpg''])]))
   \<and> (\<exists>existing. py_set (JList [JStr ''a.jpg''] :: fexpr json) = Inr existing \<and>
                   JStr ''b.jpg'' \<notin> set existing)"
proof -
  let ?cfg = "JObj [(''favorites'', JList [JStr ''a.jpg'']),
                    (''_all_photos'', JList [JStr ''a.jpg''])] :: fexpr json"
  let ?out = "JObj [(''favorites'', JList [JStr ''a.jpg'']),
                    (''_all_photos'', JList [JStr ''a.jpg'', JStr ''b.jpg''])] :: fexpr json"
  have run: "load_config [''b.jpg'', ''a.jpg''] (Stored ?cfg) = Inr (?out, Some ?out)"
    by (simp add: load_config_def py_set_def new_photos_def Let_def)
  from load_config_replaces_all_photos [OF run] show ?thesis
    using run by (simp add: py_set_def)
qed

text \<open>
  Claim C2 as stated fails: with \<^verbatim>\<open>a.jpg\<close> known and only \<^verbatim>\<open>b.jpg\<close> on disk, the list
  written is \<^verbatim>\<open>["b.jpg"]\<close>, not the sorted union \<^verbatim>\<open>["a.jpg", "b.jpg"]\<close>; the known name
  is lost.
\<close>

theorem load_config_union_counterexample:
  "load_config [''b.jpg''] (Stored (JObj [(''_all_photos'', JList [JStr ''a.jpg''])] :: fexpr json))
     = Inr (JObj [(''_all_photos'', JList [JStr ''b.jpg''])],
            Some (JObj [(''_all_photos'', JList [JStr ''b.jpg''])]))
   \<and> sort (remdups ([''a.jpg''] @ [''b.jpg''])) \<noteq> [''b.jpg'']"
  by (simp add: load_config_def py_set_def new_photos_def Let_def)

text \<open>
  Claim C8: over an existing configuration \<^verbatim>\<open>load_config\<close> changes nothing but
  \<^verbatim>\<open>_all_photos\<close>. The configuration it returns, which is also the only thing it may
  write, has the same entries in the same order once \<^verbatim>\<open>_all_photos\<close> is left out, in
  particular the same \<^verbatim>\<open>favorites\<close> and \<^verbatim>\<open>collections\<close>; and when every name of the scan
  is already known, nothing is written.
\<close>

theorem load_config_frame:
  assumes "load_config all_filenames (Stored cfg) = Inr (config, written)"
  shows "\<exists>kvs kvs' existing.
           cfg = JObj kvs \<and> config = JObj kvs' \<and>
           AList.delete ''_all_photos'' kvs' = AList.delete ''_all_photos'' kvs \<and>
           map_of kvs' ''favorites'' = map_of kvs ''favorites'' \<and>
           map_of kvs' ''collections'' = map_of kvs ''collections'' \<and>
           (written = None \<or> written = Some config) \<and>
           py_set (case map_of kvs ''_all_photos'' of None \<Rightarrow> JList [] | Some v \<Rightarrow> v)
             = Inr existing \<and>
           ((\<forall>f \<in> set all_filenames. JStr f \<in> set existing) \<longrightarrow>
              written = None \<and> config = cfg)"
  using assms
  by (cases cfg)
     (auto simp: load_config_def new_photos_def filter_empty_conv AList.update_conv'
                 AList.delete_update_same Let_def
           split: sum.splits if_splits)

theorem load_config_frame_witness:
  "load_config [''a.jpg'', ''b.jpg'']
     (Stored (JObj [(''favorites'', JList [JStr ''a.jpg'']),
                    (''_all_photos'', JList [JStr ''a.jpg'', JStr ''b.jpg''])] :: fexpr json))
   = Inr (JObj [(''favorites'', JList [JStr ''a.jpg'']),
                (''_all_photos'', JList [JStr ''a.jpg'', JStr ''b.jpg''])], None)
   \<and> py_set (JList [JStr ''a.jpg'', JStr ''b.jpg''] :: fexpr json)
        = Inr [JStr ''a.jpg'', JStr ''b.jpg'']"
proof -
  let ?cfg = "JObj [(''favorites'', JList [JStr ''a.jpg'']),
                    (''_all_photos'', JList [JStr ''a.jpg'', JStr ''b.jpg''])] :: fexpr json"
  have run: "load_config [''a.jpg'', ''b.jpg''] (Stored ?cfg) = Inr (?cfg, None)"
    by (simp add: load_config_def py_set_def new_photos_def Let_def)
  from load_config_frame [OF run] show ?thesis
    using run by (simp add: py_set_def)
qed

section \<open>Dates\<close>

text \<open>
  Claim C1, as amended. The claim says that a date field that is present but does not
  parse is passed over for the next candidate. In the code the loop over
  \<^verbatim>\<open>DateTimeOriginal\<close>, \<^verbatim>\<open>DateTimeDigitized\<close>, \<^verbatim>\<open>DateTime\<close> ends at the first field
  that is present: for an image with a decodable EXIF block the extracted date
  is the parse of the first present field, and nothing when that parse fails or no field
  is present; the record's date is the extracted date, or the file's modification time
  when nothing (or an empty string) was extracted.
\<close>

theorem date_from_first_present_field:
  assumes "image fe = Exif exif_raw"
      and "make_photo E favorites_set collections_config f fe = Inr photo"
  shows "date (extract_exif E (image fe)) =
           (case named (TAGS E) exif_raw (Name ''DateTimeOriginal'') of
              Some v \<Rightarrow> strptime_iso E (py_str v)
            | None \<Rightarrow>
                (case named (TAGS E) exif_raw (Name ''DateTimeDigitized'') of
                   Some v \<Rightarrow> strptime_iso E (py_str v)
                 | None \<Rightarrow>
                     (case named (TAGS E) exif_raw (Name ''DateTime'') of
                        Some v \<Rightarrow> strptime_iso E (py_str v)
                      | None \<Rightarrow> None)))
         \<and> py_get photo ''date'' JNull =
             Inr (JStr (case date (extract_exif E (image fe)) of
                          None \<Rightarrow> mtime_iso fe
                        | Some s \<Rightarrow> if s = [] then mtime_iso fe else s))"
proof
  show "date (extract_exif E (image fe)) =
           (case named (TAGS E) exif_raw (Name ''DateTimeOriginal'') of
              Some v \<Rightarrow> strptime_iso E (py_str v)
            | None \<Rightarrow>
                (case named (TAGS E) exif_raw (Name ''DateTimeDigitized'') of
                   Some v \<Rightarrow> strptime_iso E (py_str v)
                 | None \<Rightarrow>
                     (case named (TAGS E) exif_raw (Name ''DateTime'') of
                        Some v \<Rightarrow> strptime_iso E (py_str v)
                      | None \<Rightarrow> None)))"
    using assms(1)
    by (cases "exif_raw = []")
       (simp_all add: extract_exif_def named_def Let_def split: sum.splits option.splits)
  show "py_get photo ''date'' JNull =
           Inr (JStr (case date (extract_exif E (image fe)) of
                        None \<Rightarrow> mtime_iso fe
                      | Some s \<Rightarrow> if s = [] then mtime_iso fe else s))"
    using assms(2) by (auto simp: make_photo_def Let_def split: sum.splits)
qed

theorem date_from_first_present_field_witness:
  "make_photo example_env [] (JObj []) ''a.jpg''
     \<lparr>image = Exif [(36868, ExifValue ''2020:01:02 03:04:05'' None),
                     (306, ExifValue ''2021:05:06 07:08:09'' None)],
      mtime_iso = ''2022-03-04T05:06:07''\<rparr>
   = Inr (JObj [(''file'', JStr ''a.jpg''), (''date'', JStr ''2020-01-02T03:04:05'')])
   \<and> named (TAGS example_env)
        [(36868, ExifValue ''2020:01:02 03:04:05'' None :: fexpr exif_value),
         (306, ExifValue ''2021:05:06 07:08:09'' None)]
        (Name ''DateTimeOriginal'') = None
   \<and> date (extract_exif example_env
        (Exif [(36868, ExifValue ''2020:01:02 03:04:05'' None),
               (306, ExifValue ''2021:05:06 07:08:09'' None)])) = Some ''2020-01-02T03:04:05''"
proof -
  let ?raw = "[(36868, ExifValue ''2020:01:02 03:04:05'' None),
               (306, ExifValue ''2021:05:06 07:08:09'' None)] :: (nat \<times> fexpr exif_value) list"
  let ?fe = "\<lparr>image = Exif ?raw, mtime_iso = ''2022-03-04T05:06:07''\<rparr>"
  have tags: "named (TAGS example_env) ?raw
      = [Name ''DateTimeDigitized'' \<mapsto> ExifValue ''2020:01:02 03:04:05'' None,
         Name ''DateTime'' \<mapsto> ExifValue ''2021:05:06 07:08:09'' None]"
    by (simp add: example_env_def named_def tag_of_def pil_TAGS_def)
  have ex: "extract_exif example_env (Exif ?raw) = \<lparr>date = Some ''2020-01-02T03:04:05'', geo = None\<rparr>"
    by (simp add: extract_exif_def tags decode_gps_def)
       (simp add: example_env_def strptime_padded_valid)
  have run: "make_photo example_env [] (JObj []) ''a.jpg'' ?fe
      = Inr (JObj [(''file'', JStr ''a.jpg''), (''date'', JStr ''2020-01-02T03:04:05'')])"
    by (simp add: make_photo_def ex categories_def)
  have im: "image ?fe = Exif ?raw" by simp
  from date_from_first_present_field [OF im run] show ?thesis
    using run ex by (simp add: tags)
qed

text \<open>
  Claim C1 as stated fails: with an unparseable \<^verbatim>\<open>DateTimeOriginal\<close> and a well-formed
  \<^verbatim>\<open>DateTimeDigitized\<close>, no date is extracted and the record carries the modification
  time, not the digitized timestamp.
\<close>

theorem date_next_candidate_counterexample:
  "date (extract_exif example_env
       (Exif [(36867, ExifValue ''garbage'' None),
              (36868, ExifValue ''2020:01:02 03:04:05'' None)])) = None
   \<and> strptime_iso example_env ''garbage'' = None
   \<and> strptime_iso example_env ''2020:01:02 03:04:05'' = Some ''2020-01-02T03:04:05''
   \<and> make_photo example_env [] (JObj []) ''a.jpg''
        \<lparr>image = Exif [(36867, ExifValue ''garbage'' None),
                        (36868, ExifValue ''2020:01:02 03:04:05'' None)],
         mtime_iso = ''2022-03-04T05:06:07''\<rparr>
      = Inr (JObj [(''file'', JStr ''a.jpg''), (''date'', JStr ''2022-03-04T05:06:07'')])"
proof -
  let ?raw = "[(36867, ExifValue ''garbage'' None),
               (36868, ExifValue ''2020:01:02 03:04:05'' None)] :: (nat \<times> fexpr exif_value) list"
  have tags: "named (TAGS example_env) ?raw
      = [Name ''DateTimeOriginal'' \<mapsto> ExifValue ''garbage'' None,
         Name ''DateTimeDigitized'' \<mapsto> ExifValue ''2020:01:02 03:04:05'' None]"
    by (simp add: example_env_def named_def tag_of_def pil_TAGS_def)
  have ex: "extract_exif example_env (Exif ?raw) = \<lparr>date = None, geo = None\<rparr>"
    by (simp add: extract_exif_def tags decode_gps_def)
       (simp add: example_env_def strptime_padded_garbage)
  show ?thesis
    by (simp add: make_photo_def ex categories_def)
       (simp add: example_env_def strptime_padded_garbage strptime_padded_valid)
qed

section \<open>Errors while decoding metadata\<close>

text \<open>
  Claim C4, as amended. \<open>extract_exif\<close> has a result for every image: the handler around
  its body lets no exception out. The claim says that the result is then always the pair
  of two nulls. That holds when the error arises while the file is opened or its EXIF
  block is read. When it arises in the GPS block, \<^verbatim>\<open>geo\<close> is null and \<^verbatim>\<open>date\<close> is
  what the date fields gave before, which need not be null.
\<close>

theorem extract_exif_on_error:
  "(img = Unreadable \<or> img = NoGetexif \<longrightarrow> extract_exif E img = \<lparr>date = None, geo = None\<rparr>) \<and>
   (img = Exif exif_raw \<and> exif_raw \<noteq> [] \<and> decode_gps E (named (TAGS E) exif_raw) = Inl e \<longrightarrow>
      extract_exif E img =
        \<lparr>date = find_date E (named (TAGS E) exif_raw)
                  [''DateTimeOriginal'', ''DateTimeDigitized'', ''DateTime''],
         geo = None\<rparr>)"
  by (auto simp: extract_exif_def Let_def)

theorem extract_exif_on_error_witness:
  "decode_gps example_env (named (TAGS example_env)
       [(306, ExifValue ''2021:05:06 07:08:09'' None),
        (34853, ExifValue ''{}'' (Some [(2, GpsValue (Some [Some (FloatOf 40), Some (FloatOf 26)]) None),
                                        (4, GpsValue (Some [Some (FloatOf 79), Some (FloatOf 58), Some (FloatOf 56)]) None)]))])
     = Inl TypeError
   \<and> extract_exif example_env (Exif
       [(306, ExifValue ''2021:05:06 07:08:09'' None),
        (34853, ExifValue ''{}'' (Some [(2, GpsValue (Some [Some (FloatOf 40), Some (FloatOf 26)]) None),
                                        (4, GpsValue (Some [Some (FloatOf 79), Some (FloatOf 58), Some (FloatOf 56)]) None)]))])
     = \<lparr>date = strptime_padded ''2021:05:06 07:08:09'', geo = None\<rparr>
   \<and> extract_exif example_env Unreadable = \<lparr>date = None, geo = None\<rparr>"
proof -
  let ?gps = "[(2, GpsValue (Some [Some (FloatOf 40), Some (FloatOf 26)]) None),
               (4, GpsValue (Some [Some (FloatOf 79), Some (FloatOf 58), Some (FloatOf 56)]) None)]"
  let ?raw = "[(306, ExifValue ''2021:05:06 07:08:09'' None), (34853, ExifValue ''{}'' (Some ?gps))]"
  have tags: "named (TAGS example_env) ?raw
      = [Name ''DateTime'' \<mapsto> ExifValue ''2021:05:06 07:08:09'' None,
         Name ''GPSInfo'' \<mapsto> ExifValue ''{}'' (Some ?gps)]"
    by (simp add: example_env_def named_def tag_of_def pil_TAGS_def)
  have gtags: "named (GPSTAGS example_env) ?gps
      = [Name ''GPSLatitude'' \<mapsto> GpsValue (Some [Some (FloatOf 40), Some (FloatOf 26)]) None,
         Name ''GPSLongitude'' \<mapsto> GpsValue (Some [Some (FloatOf 79), Some (FloatOf 58), Some (FloatOf 56)]) None]"
    by (simp add: example_env_def named_def tag_of_def pil_GPSTAGS_def)
  have gps: "decode_gps example_env (named (TAGS example_env) ?raw) = Inl TypeError"
    by (simp add: decode_gps_def tags gtags to_degrees_def)
  have d: "find_date example_env (named (TAGS example_env) ?raw)
             [''DateTimeOriginal'', ''DateTimeDigitized'', ''DateTime'']
           = strptime_padded ''2021:05:06 07:08:09''"
    by (simp add: tags) (simp add: example_env_def)
  from extract_exif_on_error [of "Exif ?raw" example_env ?raw TypeError]
       extract_exif_on_error [of Unreadable example_env "[]" TypeError]
  show ?thesis
    using gps d by simp
qed

text \<open>
  Claim C4 as stated fails: a \<^verbatim>\<open>GPSInfo\<close> value without \<^verbatim>\<open>items()\<close> raises
  \<^verbatim>\<open>AttributeError\<close> after a well-formed \<^verbatim>\<open>DateTimeOriginal\<close> was stored, and the
  result keeps that date.
\<close>

theorem extract_exif_keeps_date_counterexample:
  "decode_gps example_env (named (TAGS example_env)
       [(36867, ExifValue ''2020:01:02 03:04:05'' None), (34853, ExifValue ''1'' None)])
     = Inl AttributeError
   \<and> extract_exif example_env (Exif
       [(36867, ExifValue ''2020:01:02 03:04:05'' None), (34853, ExifValue ''1'' None)])
     = \<lparr>date = Some ''2020-01-02T03:04:05'', geo = None\<rparr>"
proof -
  let ?raw = "[(36867, ExifValue ''2020:01:02 03:04:05'' None), (34853, ExifValue ''1'' None)]
              :: (nat \<times> fexpr exif_value) list"
  have tags: "named (TAGS example_env) ?raw
      = [Name ''DateTimeOriginal'' \<mapsto> ExifValue ''2020:01:02 03:04:05'' None,
         Name ''GPSInfo'' \<mapsto> ExifValue ''1'' None]"
    by (simp add: example_env_def named_def tag_of_def pil_TAGS_def)
  show ?thesis
    by (simp add: extract_exif_def decode_gps_def tags)
       (simp add: example_env_def strptime_padded_valid)
qed

section \<open>Coordinates\<close>

text \<open>
  Claim C5: for every platform, when the GPS block holds both a latitude and a longitude
  that unpack to three numbers, each coordinate is \<^verbatim>\<open>d + m / 60 + s / 3600\<close> in the
  platform's float arithmetic, negated when the latitude reference is the string
  \<^verbatim>\<open>S\<close> or the longitude reference is the string \<^verbatim>\<open>W\<close> and left as it is when the
  reference is anything else or absent, and \<^verbatim>\<open>round(_, 6)\<close> is applied last; when either
  field is absent there are no coordinates. The witness computes the example of the
  specification in exact arithmetic: 40 degrees 26 minutes 46 seconds north and
  79 degrees 58 minutes 56 seconds west give 40.446111 and -79.982222.
\<close>

theorem gps_decoding:
  assumes "named (TAGS E) exif_raw (Name ''GPSInfo'') = Some info"
      and "py_items info = Some items"
  shows "(named (GPSTAGS E) items (Name ''GPSLatitude'') = Some la \<and>
          named (GPSTAGS E) items (Name ''GPSLongitude'') = Some lo \<and>
          unpack la = Some [Some d, Some m, Some s] \<and>
          unpack lo = Some [Some d', Some m', Some s'] \<longrightarrow>
            geo (extract_exif E (Exif exif_raw)) =
              Some (round6 E
                      (let lat = float_add E (float_add E d (float_div E m 60)) (float_div E s 3600)
                       in case named (GPSTAGS E) items (Name ''GPSLatitudeRef'') of
                            None \<Rightarrow> lat
                          | Some r \<Rightarrow> if as_str r = Some ''S'' then float_neg E lat else lat),
                    round6 E
                      (let lon = float_add E (float_add E d' (float_div E m' 60)) (float_div E s' 3600)
                       in case named (GPSTAGS E) items (Name ''GPSLongitudeRef'') of
                            None \<Rightarrow> lon
                          | Some r \<Rightarrow> if as_str r = Some ''W'' then float_neg E lon else lon)))
       \<and> (named (GPSTAGS E) items (Name ''GPSLatitude'') = None \<or>
          named (GPSTAGS E) items (Name ''GPSLongitude'') = None \<longrightarrow>
            geo (extract_exif E (Exif exif_raw)) = None)"
proof -
  from assms(1) have ne: "exif_raw \<noteq> []"
    by (auto simp: named_def)
  show ?thesis
    using assms ne
    by (auto simp: extract_exif_def decode_gps_def to_degrees_def ref_is_def Let_def
             split: option.splits)
qed

theorem gps_decoding_witness:
  "geo (extract_exif exact_env
     (Exif [(34853, ExifValue ''{...}'' (Some
        [(1, GpsValue None (Some ''N'')),
         (2, GpsValue (Some [Some 40, Some 26, Some 46]) None),
         (3, GpsValue None (Some ''W'')),
         (4, GpsValue (Some [Some 79, Some 58, Some 56]) None)]))]))
     = Some (40446111 / 1000000, - (79982222 / 1000000))
   \<and> geo (extract_exif exact_env
     (Exif [(34853, ExifValue ''{...}'' (Some
        [(1, GpsValue None (Some ''N'')),
         (2, GpsValue (Some [Some 40, Some 26, Some 46]) None)]))]))
     = None"
proof -
  let ?la = "GpsValue (Some [Some 40, Some 26, Some 46]) None :: rat gps_value"
  let ?lo = "GpsValue (Some [Some 79, Some 58, Some 56]) None :: rat gps_value"
  let ?items = "[(1, GpsValue None (Some ''N'')), (2, ?la), (3, GpsValue None (Some ''W'')), (4, ?lo)]"
  let ?info = "ExifValue ''{...}'' (Some ?items)"
  let ?items2 = "[(1, GpsValue None (Some ''N'')), (2, ?la)]"
  let ?info2 = "ExifValue ''{...}'' (Some ?items2)"
  have info: "named (TAGS exact_env) [(34853, ?info)] (Name ''GPSInfo'') = Some ?info"
    by (simp add: exact_env_fields named_def tag_of_def pil_TAGS_def)
  have info2: "named (TAGS exact_env) [(34853, ?info2)] (Name ''GPSInfo'') = Some ?info2"
    by (simp add: exact_env_fields named_def tag_of_def pil_TAGS_def)
  have floor_lat: "\<lfloor>364015000 / 9 :: rat\<rfloor> = 40446111"
    by (rule floor_unique) simp_all
  have floor_lon: "\<lfloor>- (719840000 / 9) :: rat\<rfloor> = - 79982223"
    by (rule floor_unique) simp_all
  from gps_decoding [OF info, of ?items ?la ?lo 40 26 46 79 58 56]
  have one: "geo (extract_exif exact_env (Exif [(34853, ?info)]))
          = Some (40446111 / 1000000, - (79982222 / 1000000))"
    by (simp add: exact_env_fields named_def tag_of_def pil_GPSTAGS_def Let_def
          exact_round6_def round_half_even_def floor_lat floor_lon)
  from gps_decoding [OF info2, of ?items2 ?la ?lo 40 26 46 79 58 56]
  have two: "geo (extract_exif exact_env (Exif [(34853, ?info2)])) = None"
    by (simp add: exact_env_fields named_def tag_of_def pil_GPSTAGS_def)
  from one two show ?thesis by blast
qed

text \<open>
  On the example platform, whose floats are expressions, the same input shows the
  expression the program evaluates:
  \<^verbatim>\<open>round(40 + 26/60 + 46/3600, 6)\<close> and \<^verbatim>\<open>round(-(79 + 58/60 + 56/3600), 6)\<close>.
\<close>

lemma decode_gps_example:
  "extract_exif example_env
     (Exif [(34853, ExifValue ''{...}'' (Some
        [(1, GpsValue None (Some ''N'')),
         (2, GpsValue (Some [Some (FloatOf 40), Some (FloatOf 26), Some (FloatOf 46)]) None),
         (3, GpsValue None (Some ''W'')),
         (4, GpsValue (Some [Some (FloatOf 79), Some (FloatOf 58), Some (FloatOf 56)]) None)]))])
   = \<lparr>date = None,
      geo = Some (FRound6 (FAdd (FAdd (FloatOf 40) (FDiv (FloatOf 26) 60)) (FDiv (FloatOf 46) 3600)),
                  FRound6 (FNeg (FAdd (FAdd (FloatOf 79) (FDiv (FloatOf 58) 60))
                                      (FDiv (FloatOf 56) 3600))))\<rparr>"
  by (simp add: extract_exif_def decode_gps_def named_def tag_of_def example_env_def
        pil_TAGS_def pil_GPSTAGS_def to_degrees_def ref_is_def)

section \<open>Categories\<close>

text \<open>The loop over the collections appends, in order, the names of those that contain the file.\<close>

lemma collect_categories_closed_form:
  "collect_categories f items cats = Inr r \<Longrightarrow>
   r = cats @ map fst (filter (\<lambda>col. py_contains f (snd col) = Inr True) items)"
proof (induction items arbitrary: cats)
  case Nil
  then show ?case by simp
next
  case (Cons col items)
  from Cons.prems obtain b where
    b: "py_contains f (snd col) = Inr b" and
    rest: "collect_categories f items (if b then cats @ [fst col] else cats) = Inr r"
    by (auto split: sum.splits)
  from Cons.IH [OF rest] b show ?case by (cases b) simp_all
qed

lemma make_photo_fields:
  assumes "make_photo E favorites_set collections_config f fe = Inr photo"
  shows "\<exists>kvs cats. photo = JObj kvs \<and>
           categories favorites_set collections_config f = Inr cats \<and>
           map_of kvs ''file'' = Some (JStr f) \<and>
           (\<exists>s. map_of kvs ''date'' = Some (JStr s)) \<and>
           map_of kvs ''categories'' = (if cats = [] then None else Some (JList (map JStr cats)))"
proof -
  from assms obtain cats where
    c: "categories favorites_set collections_config f = Inr cats"
    by (auto simp: make_photo_def Let_def split: sum.splits)
  with assms show ?thesis
    by (cases "geo (extract_exif E (image fe))") (auto simp: make_photo_def Let_def)
qed

text \<open>
  Claim C7: a record has the key \<^verbatim>\<open>categories\<close> exactly when its list of categories is
  not empty, and the list is \<^verbatim>\<open>"favorites"\<close> if the file name is in the favorites set,
  followed by the name of every collection whose value contains the file name, in the
  order of the collection mapping. The witness is the example of the specification:
  \<^verbatim>\<open>favorites=["a.jpg"]\<close>, \<^verbatim>\<open>collections={"flowers":["a.jpg","b.jpg"]}\<close>.
\<close>

theorem categories_of_record:
  assumes "make_photo E favorites_set collections_config f fe = Inr photo"
  shows "\<exists>kvs items cats.
           photo = JObj kvs \<and> dict_items collections_config = Inr items \<and>
           cats = (if JStr f \<in> set favorites_set then [''favorites''] else []) @
                  map fst (filter (\<lambda>col. py_contains f (snd col) = Inr True) items) \<and>
           map_of kvs ''categories'' = (if cats = [] then None else Some (JList (map JStr cats)))"
proof -
  from make_photo_fields [OF assms] obtain kvs cats where
    p: "photo = JObj kvs" and
    c: "categories favorites_set collections_config f = Inr cats" and
    m: "map_of kvs ''categories'' = (if cats = [] then None else Some (JList (map JStr cats)))"
    by blast
  from c obtain items where
    i: "dict_items collections_config = Inr items" and
    cc: "collect_categories f items (if JStr f \<in> set favorites_set then [''favorites''] else []) = Inr cats"
    by (auto simp: categories_def split: sum.splits)
  have "cats = (if JStr f \<in> set favorites_set then [''favorites''] else []) @
                  map fst (filter (\<lambda>col. py_contains f (snd col) = Inr True) items)"
    by (rule collect_categories_closed_form [OF cc])
  with p i m show ?thesis by blast
qed

theorem categories_of_record_witness:
  "make_photo example_env [JStr ''a.jpg'']
       (JObj [(''flowers'', JList [JStr ''a.jpg'', JStr ''b.jpg''])]) ''a.jpg''
       \<lparr>image = NoExif, mtime_iso = ''2022-03-04T05:06:07''\<rparr>
     = Inr (JObj [(''file'', JStr ''a.jpg''), (''date'', JStr ''2022-03-04T05:06:07''),
                  (''categories'', JList [JStr ''favorites'', JStr ''flowers''])])
   \<and> make_photo example_env [JStr ''a.jpg'']
       (JObj [(''flowers'', JList [JStr ''a.jpg'', JStr ''b.jpg''])]) ''b.jpg''
       \<lparr>image = NoExif, mtime_iso = ''2022-03-04T05:06:07''\<rparr>
     = Inr (JObj [(''file'', JStr ''b.jpg''), (''date'', JStr ''2022-03-04T05:06:07''),
                  (''categories'', JList [JStr ''flowers''])])
   \<and> make_photo example_env [JStr ''a.jpg'']
       (JObj [(''flowers'', JList [JStr ''a.jpg'', JStr ''b.jpg''])]) ''c.jpg''
       \<lparr>image = NoExif, mtime_iso = ''2022-03-04T05:06:07''\<rparr>
     = Inr (JObj [(''file'', JStr ''c.jpg''), (''date'', JStr ''2022-03-04T05:06:07'')])"
proof -
  let ?fav = "[JStr ''a.jpg''] :: fexpr json list"
  let ?col = "JObj [(''flowers'', JList [JStr ''a.jpg'', JStr ''b.jpg''])] :: fexpr json"
  let ?fe = "\<lparr>image = NoExif, mtime_iso = ''2022-03-04T05:06:07''\<rparr> :: fexpr file_entry"
  have b: "make_photo example_env ?fav ?col ''b.jpg'' ?fe
     = Inr (JObj [(''file'', JStr ''b.jpg''), (''date'', JStr ''2022-03-04T05:06:07''),
                  (''categories'', JList [JStr ''flowers''])])"
    by (simp add: make_photo_def extract_exif_def categories_def)
  have c: "make_photo example_env ?fav ?col ''c.jpg'' ?fe
     = Inr (JObj [(''file'', JStr ''c.jpg''), (''date'', JStr ''2022-03-04T05:06:07'')])"
    by (simp add: make_photo_def extract_exif_def categories_def)
  obtain photo where a: "make_photo example_env ?fav ?col ''a.jpg'' ?fe = Inr photo"
    by (simp add: make_photo_def extract_exif_def categories_def)
  from categories_of_record [OF a] obtain kvs where
    p: "photo = JObj kvs" and
    m: "map_of kvs ''categories'' = Some (JList [JStr ''favorites'', JStr ''flowers''])"
    by auto
  have "make_photo example_env ?fav ?col ''a.jpg'' ?fe
     = Inr (JObj [(''file'', JStr ''a.jpg''), (''date'', JStr ''2022-03-04T05:06:07''),
                  (''categories'', JList [JStr ''favorites'', JStr ''flowers''])])"
    using a p m by (simp add: make_photo_def extract_exif_def categories_def)
  with b c show ?thesis by simp
qed

text \<open>
  Claim C10, as amended. Membership in the favorites is one test, so it contributes
  \<^verbatim>\<open>"favorites"\<close> once however often the name is listed. The claim says that the record
  then holds \<^verbatim>\<open>"favorites"\<close> at most once. That needs one more condition: no collection
  is itself named \<^verbatim>\<open>favorites\<close>. Under it \<^verbatim>\<open>"favorites"\<close> occurs exactly once when the
  file name is in the favorites set and not at all otherwise.
\<close>

theorem favorites_at_most_once:
  assumes "make_photo E favorites_set collections_config f fe = Inr photo"
      and "dict_items collections_config = Inr items"
      and "''favorites'' \<notin> fst ` set items"
  shows "\<exists>kvs cats.
           photo = JObj kvs \<and>
           map_of kvs ''categories'' = (if cats = [] then None else Some (JList (map JStr cats))) \<and>
           count_list cats ''favorites'' = (if JStr f \<in> set favorites_set then 1 else 0)"
proof -
  let ?named = "map fst (filter (\<lambda>col. py_contains f (snd col) = Inr True) items)"
  from make_photo_fields [OF assms(1)] obtain kvs cats where
    p: "photo = JObj kvs" and
    c: "categories favorites_set collections_config f = Inr cats" and
    m: "map_of kvs ''categories'' = (if cats = [] then None else Some (JList (map JStr cats)))"
    by blast
  from c assms(2) have
    cc: "collect_categories f items (if JStr f \<in> set favorites_set then [''favorites''] else []) = Inr cats"
    by (simp add: categories_def)
  have cats: "cats = (if JStr f \<in> set favorites_set then [''favorites''] else []) @ ?named"
    by (rule collect_categories_closed_form [OF cc])
  have "''favorites'' \<notin> set ?named"
    using assms(3) by auto
  then have "count_list ?named ''favorites'' = 0"
    by (simp only: count_list_0_iff not_False_eq_True)
  with cats have "count_list cats ''favorites'' = (if JStr f \<in> set favorites_set then 1 else 0)"
    by simp
  with p m show ?thesis by blast
qed

theorem favorites_at_most_once_witness:
  "make_photo example_env [JStr ''a.jpg'', JStr ''a.jpg'']
       (JObj [(''flowers'', JList [JStr ''a.jpg''])]) ''a.jpg''
       \<lparr>image = NoExif, mtime_iso = ''2022-03-04T05:06:07''\<rparr>
     = Inr (JObj [(''file'', JStr ''a.jpg''), (''date'', JStr ''2022-03-04T05:06:07''),
                  (''categories'', JList [JStr ''favorites'', JStr ''flowers''])])
   \<and> dict_items (JObj [(''flowers'', JList [JStr ''a.jpg''])] :: fexpr json)
       = Inr [(''flowers'', JList [JStr ''a.jpg''])]
   \<and> ''favorites'' \<notin> fst ` set [(''flowers'', JList [JStr ''a.jpg''] :: fexpr json)]
   \<and> count_list [''favorites'', ''flowers''] ''favorites'' = 1"
proof -
  let ?fav = "[JStr ''a.jpg'', JStr ''a.jpg''] :: fexpr json list"
  let ?items = "[(''flowers'', JList [JStr ''a.jpg''])] :: (string \<times> fexpr json) list"
  let ?fe = "\<lparr>image = NoExif, mtime_iso = ''2022-03-04T05:06:07''\<rparr> :: fexpr file_entry"
  have run: "make_photo example_env ?fav (JObj ?items) ''a.jpg'' ?fe
     = Inr (JObj [(''file'', JStr ''a.jpg''), (''date'', JStr ''2022-03-04T05:06:07''),
                  (''categories'', JList [JStr ''favorites'', JStr ''flowers''])])"
    by (simp add: make_photo_def extract_exif_def categories_def)
  have items: "dict_items (JObj ?items) = Inr ?items" by simp
  have fresh: "''favorites'' \<notin> fst ` set ?items" by simp
  from favorites_at_most_once [OF run items fresh] obtain cats where
    "Some (JList [JStr ''favorites'', JStr ''flowers'']) =
       (if cats = [] then None else Some (JList (map JStr cats) :: fexpr json))" and
    n: "count_list cats ''favorites'' = 1"
    by auto
  then have "map JStr cats = [JStr ''favorites'', JStr ''flowers'' :: fexpr json]"
    by (auto split: if_splits)
  then have "cats = [''favorites'', ''flowers'']"
    by (auto simp: map_eq_Cons_conv)
  with n run items fresh show ?thesis by simp
qed

text \<open>
  Claim C10 as stated fails: with \<^verbatim>\<open>a.jpg\<close> listed twice in the favorites and a
  collection named \<^verbatim>\<open>favorites\<close> that holds it, the emitted record has \<^verbatim>\<open>"favorites"\<close>
  twice.
\<close>

theorem favorites_twice_counterexample:
  "main example_env
     \<lparr>photos_dir = Some [(''a.jpg'', \<lparr>image = NoExif, mtime_iso = ''2022-03-04T05:06:07''\<rparr>)],
      config_file = Stored (JObj [(''favorites'', JList [JStr ''a.jpg'', JStr ''a.jpg'']),
                                  (''collections'', JObj [(''favorites'', JList [JStr ''a.jpg''])]),
                                  (''_all_photos'', JList [JStr ''a.jpg''])]),
      output_json = None, output_js = None\<rparr>
   = Inr \<lparr>photos_dir = Some [(''a.jpg'', \<lparr>image = NoExif, mtime_iso = ''2022-03-04T05:06:07''\<rparr>),
                              (''photos_data.json'', data_file example_env)],
          config_file = Stored (JObj [(''favorites'', JList [JStr ''a.jpg'', JStr ''a.jpg'']),
                                  (''collections'', JObj [(''favorites'', JList [JStr ''a.jpg''])]),
                                  (''_all_photos'', JList [JStr ''a.jpg''])]),
          output_json = Some (JList [JObj [(''file'', JStr ''a.jpg''), (''date'', JStr ''2022-03-04T05:06:07''),
                  (''categories'', JList [JStr ''favorites'', JStr ''favorites''])]]),
          output_js = Some (JList [JObj [(''file'', JStr ''a.jpg''), (''date'', JStr ''2022-03-04T05:06:07''),
                  (''categories'', JList [JStr ''favorites'', JStr ''favorites''])]])\<rparr>
   \<and> count_list [''favorites'', ''favorites''] ''favorites'' = 2"
  by (simp add: main_def scan_def ext_of_examples SUPPORTED_EXTENSIONS_def HEIC_EXTENSIONS_def
        load_config_def py_set_def new_photos_def make_photo_def extract_exif_def categories_def)

section \<open>The manifest\<close>

lemma make_photos_fields:
  "make_photos E favorites_set collections_config d files = Inr photos \<Longrightarrow>
     map (\<lambda>p. py_get p ''file'' JNull) photos = map (\<lambda>f. Inr (JStr f)) files \<and>
     (\<forall>p \<in> set photos. \<exists>s. py_get p ''date'' JNull = Inr (JStr s))"
proof (induction files arbitrary: photos)
  case Nil
  then show ?case by simp
next
  case (Cons f files)
  from Cons.prems obtain fe photo rest where
    fe: "map_of d f = Some fe" and
    ph: "make_photo E favorites_set collections_config f fe = Inr photo" and
    rest: "make_photos E favorites_set collections_config d files = Inr rest" and
    photos: "photos = photo # rest"
    by (auto split: option.splits sum.splits)
  from make_photo_fields [OF ph] obtain kvs s where
    "photo = JObj kvs" "map_of kvs ''file'' = Some (JStr f)" "map_of kvs ''date'' = Some (JStr s)"
    by blast
  then have "py_get photo ''file'' JNull = Inr (JStr f)" "py_get photo ''date'' JNull = Inr (JStr s)"
    by simp_all
  with Cons.IH [OF rest] photos show ?case by simp
qed

lemma main_steps:
  assumes "main E W = Inr W'"
  obtains d0 d config written favorites favorites_set collections_config photos where
    "photos_dir W = Some d0"
    "convert_all E (map fst d0) d0 = Inr d"
    "load_config (scan d) (config_file W) = Inr (config, written)"
    "py_get config ''favorites'' (JList []) = Inr favorites"
    "py_set favorites = Inr favorites_set"
    "py_get config ''collections'' (JObj []) = Inr collections_config"
    "make_photos E favorites_set collections_config d (scan d) = Inr photos"
    "W' = \<lparr>photos_dir = Some (AList.update ''photos_data.json'' (data_file E) d),
           config_file = (case written of None \<Rightarrow> config_file W | Some c \<Rightarrow> Stored c),
           output_json = Some (JList (sort_key date_of photos)),
           output_js = Some (JList (sort_key date_of photos))\<rparr>"
  using assms unfolding main_def
  by (auto split: option.splits sum.splits prod.splits)

text \<open>A run touches the configuration file only through \<open>load_config\<close>.\<close>

lemma main_config_file:
  assumes "main (E :: 'f env) W = Inr W'"
  shows "\<exists>(d :: 'f dir) config written.
           load_config (scan d) (config_file W) = Inr (config, written) \<and>
           config_file W' = (case written of None \<Rightarrow> config_file W | Some c \<Rightarrow> Stored c)"
proof -
  from assms obtain d config written photos where
    l: "load_config (scan d) (config_file W) = Inr (config, written)" and
    w: "W' = \<lparr>photos_dir = Some (AList.update ''photos_data.json'' (data_file E) d),
           config_file = (case written of None \<Rightarrow> config_file W | Some c \<Rightarrow> Stored c),
           output_json = Some (JList (sort_key date_of photos)),
           output_js = Some (JList (sort_key date_of photos))\<rparr>"
    by (rule main_steps) blast
  from w have "config_file W' = (case written of None \<Rightarrow> config_file W | Some c \<Rightarrow> Stored c)"
    by simp
  with l show ?thesis by blast
qed

text \<open>
  Claim C6: the list written to both outputs is the list of records built in file name
  order, sorted by the \<^verbatim>\<open>date\<close> string in ascending order; it holds the same records,
  records with equal dates keep the order they had before the sort, and every record has
  a \<^verbatim>\<open>date\<close> that is a string.
\<close>

theorem manifest_sorted_by_date:
  assumes "main E W = Inr W'"
  shows "\<exists>files pre out.
           output_json W' = Some (JList out) \<and> output_js W' = Some (JList out) \<and>
           sorted files \<and>
           map (\<lambda>p. py_get p ''file'' JNull) pre = map (\<lambda>f. Inr (JStr f)) files \<and>
           mset out = mset pre \<and>
           sorted (map date_of out) \<and>
           (\<forall>k. filter (\<lambda>p. date_of p = k) out = filter (\<lambda>p. date_of p = k) pre) \<and>
           (\<forall>p \<in> set out. \<exists>s. py_get p ''date'' JNull = Inr (JStr s))"
proof -
  from assms obtain d favorites_set collections_config photos where
    mk: "make_photos E favorites_set collections_config d (scan d) = Inr photos" and
    oj: "output_json W' = Some (JList (sort_key date_of photos))" and
    os: "output_js W' = Some (JList (sort_key date_of photos))"
    by (rule main_steps) simp
  let ?out = "sort_key date_of photos"
  have "sorted (scan d)" by (simp add: scan_def)
  moreover from make_photos_fields [OF mk] have
    "map (\<lambda>p. py_get p ''file'' JNull) photos = map (\<lambda>f. Inr (JStr f)) (scan d)" and
    dates: "\<forall>p \<in> set photos. \<exists>s. py_get p ''date'' JNull = Inr (JStr s)"
    by simp_all
  moreover have "mset ?out = mset photos" by simp
  moreover have "sorted (map date_of ?out)" by (rule sorted_sort_key)
  moreover have "\<forall>k. filter (\<lambda>p. date_of p = k) ?out = filter (\<lambda>p. date_of p = k) photos"
    by (simp add: sort_key_stable)
  moreover from dates have "\<forall>p \<in> set ?out. \<exists>s. py_get p ''date'' JNull = Inr (JStr s)"
    by simp
  ultimately show ?thesis using oj os by blast
qed

theorem manifest_sorted_by_date_witness:
  "main example_env
     \<lparr>photos_dir = Some [(''c.jpg'', \<lparr>image = NoExif, mtime_iso = ''2021-01-01T00:00:00''\<rparr>),
                         (''a.jpg'', \<lparr>image = NoExif, mtime_iso = ''2022-01-01T00:00:00''\<rparr>),
                         (''b.jpg'', \<lparr>image = NoExif, mtime_iso = ''2021-01-01T00:00:00''\<rparr>)],
      config_file = Stored (JObj [(''_all_photos'', JList [JStr ''a.jpg'', JStr ''b.jpg'', JStr ''c.jpg''])]),
      output_json = None, output_js = None\<rparr>
   = Inr \<lparr>photos_dir = Some [(''c.jpg'', \<lparr>image = NoExif, mtime_iso = ''2021-01-01T00:00:00''\<rparr>),
                         (''a.jpg'', \<lparr>image = NoExif, mtime_iso = ''2022-01-01T00:00:00''\<rparr>),
                         (''b.jpg'', \<lparr>image = NoExif, mtime_iso = ''2021-01-01T00:00:00''\<rparr>),
                         (''photos_data.json'', data_file example_env)],
      config_file = Stored (JObj [(''_all_photos'', JList [JStr ''a.jpg'', JStr ''b.jpg'', JStr ''c.jpg''])]),
      output_json = Some (JList [JObj [(''file'', JStr ''b.jpg''), (''date'', JStr ''2021-01-01T00:00:00'')],
                                 JObj [(''file'', JStr ''c.jpg''), (''date'', JStr ''2021-01-01T00:00:00'')],
                                 JObj [(''file'', JStr ''a.jpg''), (''date'', JStr ''2022-01-01T00:00:00'')]]),
      output_js = Some (JList [JObj [(''file'', JStr ''b.jpg''), (''date'', JStr ''2021-01-01T00:00:00'')],
                               JObj [(''file'', JStr ''c.jpg''), (''date'', JStr ''2021-01-01T00:00:00'')],
                               JObj [(''file'', JStr ''a.jpg''), (''date'', JStr ''2022-01-01T00:00:00'')]])\<rparr>
   \<and> sorted (map date_of
        [JObj [(''file'', JStr ''b.jpg''), (''date'', JStr ''2021-01-01T00:00:00'')],
         JObj [(''file'', JStr ''c.jpg''), (''date'', JStr ''2021-01-01T00:00:00'')],
         JObj [(''file'', JStr ''a.jpg''), (''date'', JStr ''2022-01-01T00:00:00'' :: fexpr json)]])"
  (is "main example_env ?W = Inr ?W' \<and> sorted (map date_of ?out)")
proof -
  have run: "main example_env ?W = Inr ?W'"
    by (simp add: main_def scan_def ext_of_examples SUPPORTED_EXTENSIONS_def HEIC_EXTENSIONS_def
          load_config_def py_set_def new_photos_def make_photo_def extract_exif_def
          categories_def date_of_def)
  from manifest_sorted_by_date [OF run] obtain out where
    "output_json ?W' = Some (JList out)" and "sorted (map date_of out)"
    by blast
  then have "sorted (map date_of ?out)" by simp
  with run show ?thesis by blast
qed

section \<open>Format conversion\<close>

text \<open>
  Claim C3 does not hold of the code. With HEIF support present, a \<^verbatim>\<open>.heic\<close> file that
  Pillow cannot open makes \<^verbatim>\<open>Image.open\<close> raise inside \<^verbatim>\<open>convert_heic_to_jpeg\<close>;
  neither that function nor the loop of step 1 has a handler, so the run ends there and
  the readable \<^verbatim>\<open>a.jpg\<close> beside it is never processed.
\<close>

theorem corrupt_heic_aborts_run:
  "main example_env
     \<lparr>photos_dir = Some [(''bad.heic'', \<lparr>image = Unreadable, mtime_iso = ''2022-03-04T05:06:07''\<rparr>),
                         (''a.jpg'', \<lparr>image = NoExif, mtime_iso = ''2022-03-04T05:06:07''\<rparr>)],
      config_file = Missing, output_json = None, output_js = None\<rparr>
   = Inl (Raised ImageError)"
  by (simp add: main_def ext_of_examples HEIC_EXTENSIONS_def convert_heic_to_jpeg_def example_env_def)

text \<open>After step 1 no name with a legacy extension is left, and a second pass converts nothing.\<close>

lemma ext_of_jpeg: "ext_of (r @ ''.jpeg'') \<notin> HEIC_EXTENSIONS"
  by (simp add: ext_of_def splitext_def HEIC_EXTENSIONS_def lower_def lower_char_def Let_def)

lemma ext_of_data_file:
  "ext_of ''photos_data.json'' \<notin> HEIC_EXTENSIONS"
  "ext_of ''photos_data.json'' \<notin> SUPPORTED_EXTENSIONS"
  by (simp_all add: ext_of_def splitext_def HEIC_EXTENSIONS_def SUPPORTED_EXTENSIONS_def
        lower_def lower_char_def)

lemma keys_delete: "fst ` set (AList.delete k al) = fst ` set al - {k}"
  by (induction al) auto

lemma convert_all_heic_gone:
  assumes "heif_support E"
  shows "convert_all E fs d = Inr d' \<Longrightarrow>
         {f \<in> fst ` set d'. ext_of f \<in> HEIC_EXTENSIONS}
           \<subseteq> {f \<in> fst ` set d. ext_of f \<in> HEIC_EXTENSIONS} - set fs"
proof (induction fs arbitrary: d)
  case Nil
  then show ?case by simp
next
  case (Cons f fs)
  show ?case
  proof (cases "ext_of f \<in> HEIC_EXTENSIONS")
    case False
    with Cons.prems have "convert_all E fs d = Inr d'" by simp
    from Cons.IH [OF this] False show ?thesis by auto
  next
    case True
    with Cons.prems obtain d1 where
      c: "convert_heic_to_jpeg E f d = Inr d1" and r: "convert_all E fs d1 = Inr d'"
      by (auto split: sum.splits)
    from c assms obtain jpeg where
      d1: "d1 = AList.delete f (AList.update (fst (splitext f) @ ''.jpeg'') jpeg d)"
      by (auto simp: convert_heic_to_jpeg_def Let_def split: option.splits if_splits)
    have "{g \<in> fst ` set d1. ext_of g \<in> HEIC_EXTENSIONS}
            \<subseteq> {g \<in> fst ` set d. ext_of g \<in> HEIC_EXTENSIONS} - {f}"
      using ext_of_jpeg [of "fst (splitext f)"]
      by (auto simp: d1 keys_delete AList.dom_update)
    with Cons.IH [OF r] show ?thesis by auto
  qed
qed

lemma convert_all_nothing_to_do:
  "\<not> heif_support E \<or> (\<forall>f \<in> set fs. ext_of f \<notin> HEIC_EXTENSIONS) \<Longrightarrow> convert_all E fs d = Inr d"
  by (induction fs) (auto simp: convert_heic_to_jpeg_def)

section \<open>Running twice\<close>

lemma scan_update_other:
  "ext_of k \<notin> SUPPORTED_EXTENSIONS \<Longrightarrow> scan (AList.update k v d) = scan d"
  by (simp add: scan_def AList.update_keys)

lemma make_photos_cong:
  "(\<forall>f \<in> set files. map_of d' f = map_of d f) \<Longrightarrow>
   make_photos E favorites_set collections_config d' files
     = make_photos E favorites_set collections_config d files"
proof (induction files)
  case Nil
  show ?case by simp
next
  case (Cons f files)
  then have "map_of d' f = map_of d f"
    and "make_photos E favorites_set collections_config d' files
           = make_photos E favorites_set collections_config d files"
    by simp_all
  then show ?case by (simp only: make_photos.simps)
qed

lemma py_set_names: "py_set (JList (map JStr names)) = Inr (map JStr names)"
  by (simp add: py_set_def list_all_iff)

lemma new_photos_known: "set fs \<subseteq> set names \<Longrightarrow> new_photos fs (map JStr names) = []"
  by (auto simp: new_photos_def filter_empty_conv)

lemma load_config_known:
  assumes "py_get cfg ''_all_photos'' (JList []) = Inr (JList (map JStr names))"
      and "set fs \<subseteq> set names"
  shows "load_config fs (Stored cfg) = Inr (cfg, None)"
  by (simp add: load_config_def assms(1) py_set_names new_photos_known [OF assms(2)])

lemma load_config_again:
  assumes "load_config fs cf = Inr (config, written)"
  shows "load_config fs (case written of None \<Rightarrow> cf | Some c \<Rightarrow> Stored c) = Inr (config, None)"
proof (cases written)
  case None
  with assms show ?thesis by simp
next
  case (Some c)
  have "\<exists>names. py_get c ''_all_photos'' (JList []) = Inr (JList (map JStr names)) \<and>
          set fs \<subseteq> set names \<and> config = c"
  proof (cases cf)
    case Missing
    with assms Some have "c = JObj (default_config fs)" "config = c"
      by (auto simp: load_config_def)
    moreover have "py_get (JObj (default_config fs)) ''_all_photos'' (JList [])
        = Inr (JList (map JStr (sort fs)))"
      by (simp add: default_config_def)
    ultimately show ?thesis by (intro exI [of _ "sort fs"]) simp
  next
    case Malformed
    with assms show ?thesis by (simp add: load_config_def)
  next
    case (Stored cfg)
    from assms Stored obtain known existing where
      k: "py_get cfg ''_all_photos'' (JList []) = Inr known" and
      e: "py_set known = Inr existing"
      by (simp add: load_config_def split: sum.splits)
    from k obtain kvs where cfg: "cfg = JObj kvs" by (cases cfg) simp_all
    from assms Stored Some k e cfg have
      c: "c = JObj (AList.update ''_all_photos'' (JList (map JStr (sort (remdups fs)))) kvs)"
      and "config = c"
      by (auto simp: load_config_def Let_def split: if_splits)
    moreover from c have "py_get c ''_all_photos'' (JList [])
        = Inr (JList (map JStr (sort (remdups fs))))"
      by (simp add: AList.update_conv')
    ultimately show ?thesis by (intro exI [of _ "sort (remdups fs)"]) simp
  qed
  then obtain names where
    "py_get c ''_all_photos'' (JList []) = Inr (JList (map JStr names))"
    "set fs \<subseteq> set names" "config = c"
    by blast
  with Some load_config_known [of c names fs] show ?thesis by simp
qed

text \<open>
  Claim C9: \<open>main\<close> is a function of the platform, the directory and the configuration,
  so equal inputs give equal outputs. Beyond that, a second run on what the first run
  left behind (legacy files converted, configuration updated, \<^verbatim>\<open>photos_data.json\<close> in
  the directory) changes nothing: it ends in the same state, and for every serialiser
  both output files have the same text as after the first run.
\<close>

theorem rerun_reproduces_outputs:
  assumes "main E W = Inr W1"
  shows "main E W1 = Inr W1 \<and>
         (\<exists>photos. output_json W1 = Some photos \<and> output_js W1 = Some photos \<and>
            (\<forall>W2 dumps. main E W1 = Inr W2 \<longrightarrow>
               map_option (json_text dumps) (output_json W2) = Some (json_text dumps photos) \<and>
               map_option (js_text dumps) (output_js W2) = Some (js_text dumps photos)))"
proof -
  from assms obtain d0 d config written favorites favorites_set collections_config photos where
    dir: "photos_dir W = Some d0" and
    conv: "convert_all E (map fst d0) d0 = Inr d" and
    load: "load_config (scan d) (config_file W) = Inr (config, written)" and
    fav: "py_get config ''favorites'' (JList []) = Inr favorites" and
    favset: "py_set favorites = Inr favorites_set" and
    coll: "py_get config ''collections'' (JObj []) = Inr collections_config" and
    mk: "make_photos E favorites_set collections_config d (scan d) = Inr photos" and
    W1: "W1 = \<lparr>photos_dir = Some (AList.update ''photos_data.json'' (data_file E) d),
           config_file = (case written of None \<Rightarrow> config_file W | Some c \<Rightarrow> Stored c),
           output_json = Some (JList (sort_key date_of photos)),
           output_js = Some (JList (sort_key date_of photos))\<rparr>"
    by (rule main_steps)
  let ?d1 = "AList.update ''photos_data.json'' (data_file E) d"
  have no_heic: "\<not> heif_support E \<or> (\<forall>f \<in> set (map fst ?d1). ext_of f \<notin> HEIC_EXTENSIONS)"
  proof (cases "heif_support E")
    case True
    from convert_all_heic_gone [OF True conv]
    have "\<forall>f \<in> fst ` set d. ext_of f \<notin> HEIC_EXTENSIONS" by auto
    then show ?thesis
      using ext_of_data_file(1) by (auto simp: AList.dom_update)
  next
    case False
    then show ?thesis by simp
  qed
  have conv1: "convert_all E (map fst ?d1) ?d1 = Inr ?d1"
    by (rule convert_all_nothing_to_do [OF no_heic])
  have scan1: "scan ?d1 = scan d"
    by (rule scan_update_other [OF ext_of_data_file(2)])
  have load1: "load_config (scan d) (config_file W1) = Inr (config, None)"
    using load_config_again [OF load] by (simp add: W1)
  have same: "\<forall>f \<in> set (scan d). map_of ?d1 f = map_of d f"
    using ext_of_data_file(2) by (auto simp: scan_def AList.update_conv')
  have mk1: "make_photos E favorites_set collections_config ?d1 (scan d) = Inr photos"
    using make_photos_cong [OF same] mk by simp
  have again: "main E W1 = Inr W1"
    by (simp add: main_def W1 conv1 scan1 load1 [unfolded W1, simplified] fav favset coll mk1)
  then show ?thesis by (simp add: W1)
qed

theorem rerun_reproduces_outputs_witness:
  "main example_env
     \<lparr>photos_dir = Some [(''d.HEIC'', \<lparr>image = NoExif, mtime_iso = ''2021-01-01T00:00:00''\<rparr>),
                         (''a.jpg'', \<lparr>image = NoExif, mtime_iso = ''2022-01-01T00:00:00''\<rparr>)],
      config_file = Stored (JObj [(''favorites'', JList [JStr ''a.jpg'']),
                                  (''_all_photos'', JList [JStr ''a.jpg''])]),
      output_json = None, output_js = None\<rparr>
   = Inr \<lparr>photos_dir = Some [(''a.jpg'', \<lparr>image = NoExif, mtime_iso = ''2022-01-01T00:00:00''\<rparr>),
                         (''d.jpeg'', \<lparr>image = NoExif, mtime_iso = ''2021-01-01T00:00:00''\<rparr>),
                         (''photos_data.json'', data_file example_env)],
      config_file = Stored (JObj [(''favorites'', JList [JStr ''a.jpg'']),
                                  (''_all_photos'', JList [JStr ''a.jpg'', JStr ''d.jpeg''])]),
      output_json = Some (JList [JObj [(''file'', JStr ''d.jpeg''), (''date'', JStr ''2021-01-01T00:00:00'')],
                                 JObj [(''file'', JStr ''a.jpg''), (''date'', JStr ''2022-01-01T00:00:00''),
                                       (''categories'', JList [JStr ''favorites''])]]),
      output_js = Some (JList [JObj [(''file'', JStr ''d.jpeg''), (''date'', JStr ''2021-01-01T00:00:00'')],
                                 JObj [(''file'', JStr ''a.jpg''), (''date'', JStr ''2022-01-01T00:00:00''),
                                       (''categories'', JList [JStr ''favorites''])]])\<rparr>
   \<and> main example_env
     \<lparr>photos_dir = Some [(''a.jpg'', \<lparr>image = NoExif, mtime_iso = ''2022-01-01T00:00:00''\<rparr>),
                         (''d.jpeg'', \<lparr>image = NoExif, mtime_iso = ''2021-01-01T00:00:00''\<rparr>),
                         (''photos_data.json'', data_file example_env)],
      config_file = Stored (JObj [(''favorites'', JList [JStr ''a.jpg'']),
                                  (''_all_photos'', JList [JStr ''a.jpg'', JStr ''d.jpeg''])]),
      output_json = Some (JList [JObj [(''file'', JStr ''d.jpeg''), (''date'', JStr ''2021-01-01T00:00:00'')],
                                 JObj [(''file'', JStr ''a.jpg''), (''date'', JStr ''2022-01-01T00:00:00''),
                                       (''categories'', JList [JStr ''favorites''])]]),
      output_js = Some (JList [JObj [(''file'', JStr ''d.jpeg''), (''date'', JStr ''2021-01-01T00:00:00'')],
                                 JObj [(''file'', JStr ''a.jpg''), (''date'', JStr ''2022-01-01T00:00:00''),
                                       (''categories'', JList [JStr ''favorites''])]])\<rparr>
   = Inr \<lparr>photos_dir = Some [(''a.jpg'', \<lparr>image = NoExif, mtime_iso = ''2022-01-01T00:00:00''\<rparr>),
                         (''d.jpeg'', \<lparr>image = NoExif, mtime_iso = ''2021-01-01T00:00:00''\<rparr>),
                         (''photos_data.json'', data_file example_env)],
      config_file = Stored (JObj [(''favorites'', JList [JStr ''a.jpg'']),
                                  (''_all_photos'', JList [JStr ''a.jpg'', JStr ''d.jpeg''])]),
      output_json = Some (JList [JObj [(''file'', JStr ''d.jpeg''), (''date'', JStr ''2021-01-01T00:00:00'')],
                                 JObj [(''file'', JStr ''a.jpg''), (''date'', JStr ''2022-01-01T00:00:00''),
                                       (''categories'', JList [JStr ''favorites''])]]),
      output_js = Some (JList [JObj [(''file'', JStr ''d.jpeg''), (''date'', JStr ''2021-01-01T00:00:00'')],
                                 JObj [(''file'', JStr ''a.jpg''), (''date'', JStr ''2022-01-01T00:00:00''),
                                       (''categories'', JList [JStr ''favorites''])]])\<rparr>"
  (is "main example_env ?W = Inr ?W1 \<and> main example_env ?W1 = Inr ?W1")
proof -
  have splitext_d: "fst (splitext ''d.HEIC'') = ''d''"
    by (simp add: splitext_def)
  have run: "main example_env ?W = Inr ?W1"
    by (simp add: main_def scan_def ext_of_examples SUPPORTED_EXTENSIONS_def HEIC_EXTENSIONS_def
          convert_heic_to_jpeg_def splitext_d example_env_fields Let_def
          load_config_def py_set_def new_photos_def make_photo_def extract_exif_def
          categories_def date_of_def)
  from rerun_reproduces_outputs [OF run] have "main example_env ?W1 = Inr ?W1"
    by blast
  with run show ?thesis by blast
qed

end
